theory Spec2Isabelle
  imports Main "HOL-Library.AList" "HOL-Library.Sublist"
begin

section \<open>The chat store (lib/chat-store.ts)\<close>

subsection \<open>Messages and the browser's storage\<close>

text \<open>
  A \<open>Message\<close> as the chat store reads it: \<open>m.role\<close>, \<open>m.content\<close> (a string: the store
  calls \<open>slice\<close> and \<open>length\<close> on it) and \<open>m.createdAt\<close>, which a message may lack. Strings
  are sequences of code units, so \<open>slice(0, n)\<close> is \<open>take n\<close> and \<open>.length\<close> is \<open>length\<close>.

  The \<open>createdAt\<close> of a message that \<open>useChat\<close> made is a \<open>Date\<close> object, \<open>Date t\<close> for the
  instant \<open>t\<close> in milliseconds. \<open>IsoString t\<close> is the string \<open>toISOString\<close> gives for that
  instant, such as \<open>2020-09-13T12:26:40.000Z\<close>: a string that is not empty and no numeric
  literal. \<open>Number n\<close> is the number \<open>n\<close>, what \<open>Date.now()\<close> returns.
\<close>

datatype role = System | User | Assistant | Data

datatype time_value = Date int | IsoString int | Number int

record message =
  msg_id :: string
  role :: role
  content :: string
  msg_createdAt :: "time_value option"

datatype error = SyntaxError | RetrieverError

text \<open>
  \<open>localStorage\<close> holds strings. The store applies two operations to a stored string,
  \<open>JSON.parse\<close> and the truthiness test of \<open>if (savedChat)\<close> and \<open>||\<close>, and it writes only
  what \<open>JSON.stringify\<close> returns for a message array. A stored string is represented by
  what these operations see of it: \<open>Json ms\<close> is the JSON text that \<open>JSON.parse\<close> reads as
  the message array \<open>ms\<close>, \<open>Raw s\<close> is a string \<open>s\<close> that is no JSON text, on which
  \<open>JSON.parse\<close> throws a SyntaxError; the empty string, the only falsy one, is \<open>Raw []\<close>.
  The text of a JSON value that is no message array, which only another writer of the
  storage could leave under a chat key, has no representation here.

  A JSON text holds strings and numbers and no \<open>Date\<close>: \<open>JSON.stringify\<close> writes a \<open>Date\<close>
  as the string its \<open>toJSON\<close> method returns, which is that of \<open>toISOString\<close>, and
  \<open>JSON.parse\<close>, called without a reviver, reads that string as a string.
\<close>

datatype item = Json "message list" | Raw string

fun toJSON_time :: "time_value \<Rightarrow> time_value" where
  "toJSON_time (Date t) = IsoString t"
| "toJSON_time (IsoString t) = IsoString t"
| "toJSON_time (Number n) = Number n"

definition toJSON :: "message \<Rightarrow> message" where
  "toJSON m = m\<lparr>msg_createdAt := map_option toJSON_time (msg_createdAt m)\<rparr>"

definition JSON_stringify :: "message list \<Rightarrow> item" where
  "JSON_stringify ms = Json (map toJSON ms)"

fun JSON_parse :: "item \<Rightarrow> error + message list" where
  "JSON_parse (Json ms) = Inr ms"
| "JSON_parse (Raw s) = Inl SyntaxError"

fun truthy :: "item \<Rightarrow> bool" where
  "truthy (Json ms) = True"
| "truthy (Raw s) = (s \<noteq> [])"

text \<open>
  \<open>localStorage\<close> itself: the entries in the order \<open>localStorage.key(i)\<close> enumerates them.
  \<open>setItem\<close> overwrites the entry of a key it finds and appends a new one otherwise,
  \<open>removeItem\<close> drops the key, \<open>getItem\<close> answers \<open>null\<close> (\<open>None\<close>) for a key that is absent.
\<close>

type_synonym storage = "(string \<times> item) list"

definition getItem :: "string \<Rightarrow> storage \<Rightarrow> item option" where
  "getItem k ls = map_of ls k"

definition setItem :: "string \<Rightarrow> item \<Rightarrow> storage \<Rightarrow> storage" where
  "setItem k v ls = AList.update k v ls"

definition removeItem :: "string \<Rightarrow> storage \<Rightarrow> storage" where
  "removeItem k ls = AList.delete k ls"

text \<open>
  The environment the module runs in: \<open>typeof window === "undefined"\<close> on the server
  (\<open>None\<close>), and a browser window with its \<open>localStorage\<close> otherwise.
\<close>

type_synonym window = "storage option"

definition chat_key :: "string \<Rightarrow> string" where
  "chat_key cid = ''chat-'' @ cid"

subsection \<open>createChat, loadChat, saveChat\<close>

text \<open>\<open>createChat\<close>: the identifier comes from \<open>generateId()\<close>, here the argument \<open>fresh\<close>.\<close>

definition createChat :: "string \<Rightarrow> window \<Rightarrow> string \<times> window" where
  "createChat fresh w =
     (fresh, case w of None \<Rightarrow> None
                     | Some ls \<Rightarrow> Some (setItem (chat_key fresh) (JSON_stringify []) ls))"

text \<open>\<open>loadChat\<close> has no handler around \<open>JSON.parse\<close>: its exception is the result \<open>Inl\<close>.\<close>

definition loadChat :: "string \<Rightarrow> window \<Rightarrow> error + message list" where
  "loadChat cid w =
     (case w of
        None \<Rightarrow> Inr []
      | Some ls \<Rightarrow>
          (case getItem (chat_key cid) ls of
             None \<Rightarrow> Inr []
           | Some savedChat \<Rightarrow> if truthy savedChat then JSON_parse savedChat else Inr []))"

definition saveChat :: "string \<Rightarrow> message list \<Rightarrow> window \<Rightarrow> window" where
  "saveChat cid messages w =
     (case w of None \<Rightarrow> None
              | Some ls \<Rightarrow> Some (setItem (chat_key cid) (JSON_stringify messages) ls))"

subsection \<open>listChats\<close>

text \<open>
  A summary. \<open>listChats\<close> declares its \<open>createdAt\<close> a number; what it holds is what
  \<open>messages[0]?.createdAt || Date.now()\<close> evaluates to, which is the string of the first
  message where that has one.
\<close>

record chat_summary =
  chat_id :: string
  title :: string
  createdAt :: time_value

text \<open>\<open>Date.now()\<close>: \<open>now k\<close> is what the \<open>k\<close>-th reading of the clock within a call returns.\<close>

type_synonym clock = "nat \<Rightarrow> int"

text \<open>\<open>s.replace(pat, rep)\<close> with a string pattern replaces the first occurrence only.\<close>

fun replace_first :: "string \<Rightarrow> string \<Rightarrow> string \<Rightarrow> string" where
  "replace_first pat rep [] = (if pat = [] then rep else [])"
| "replace_first pat rep (c # cs) =
     (if prefix pat (c # cs) then rep @ drop (length pat) (c # cs)
      else c # replace_first pat rep cs)"

text \<open>
  The title: \<open>messages.find((m) => m.role === "user")\<close>, then thirty code units of its
  content and \<open>"..."\<close> when there were more, or \<open>Chat\<close> and six code units of the identifier.
\<close>

definition chat_title :: "string \<Rightarrow> message list \<Rightarrow> string" where
  "chat_title cid messages =
     (case find (\<lambda>m. role m = User) messages of
        Some firstUserMessage \<Rightarrow>
          take 30 (content firstUserMessage)
            @ (if length (content firstUserMessage) > 30 then ''...'' else [])
      | None \<Rightarrow> ''Chat '' @ take 6 cid)"

text \<open>
  \<open>messages[0]?.createdAt || Date.now()\<close>: the clock is read when the left operand is
  falsy, that is when there is no first message, when it has no \<open>createdAt\<close>, or when that
  is the number \<open>0\<close>; an object and a string that is not empty are truthy. The result
  carries the number of clock readings made so far.
\<close>

fun time_truthy :: "time_value \<Rightarrow> bool" where
  "time_truthy (Date t) = True"
| "time_truthy (IsoString t) = True"
| "time_truthy (Number n) = (n \<noteq> 0)"

definition chat_createdAt :: "clock \<Rightarrow> nat \<Rightarrow> message list \<Rightarrow> time_value \<times> nat" where
  "chat_createdAt now n messages =
     (case messages of
        [] \<Rightarrow> (Number (now n), Suc n)
      | m # _ \<Rightarrow>
          (case msg_createdAt m of
             None \<Rightarrow> (Number (now n), Suc n)
           | Some v \<Rightarrow> if time_truthy v then (v, n) else (Number (now n), Suc n)))"

text \<open>\<open>localStorage.getItem(key) || "[]"\<close>, the text the loop body parses.\<close>

definition stored_text :: "storage \<Rightarrow> string \<Rightarrow> item" where
  "stored_text ls key =
     (case getItem key ls of
        None \<Rightarrow> Json []
      | Some v \<Rightarrow> if truthy v then v else Json [])"

text \<open>The body of the \<open>try\<close> block for one key; an exception of \<open>JSON.parse\<close> leaves it.\<close>

definition chat_entry :: "clock \<Rightarrow> storage \<Rightarrow> nat \<Rightarrow> string \<Rightarrow> error + chat_summary \<times> nat" where
  "chat_entry now ls n key =
     (let cid = replace_first ''chat-'' [] key in
      case JSON_parse (stored_text ls key) of
        Inl e \<Rightarrow> Inl e
      | Inr messages \<Rightarrow>
          (let (t, n') = chat_createdAt now n messages
           in Inr (\<lparr>chat_id = cid, title = chat_title cid messages, createdAt = t\<rparr>, n')))"

text \<open>
  The \<open>for\<close> loop over \<open>localStorage.key(i)\<close>. The \<open>catch\<close> clause logs and goes on to the
  next key; a summary that was built is pushed.
\<close>

fun listChats_loop :: "clock \<Rightarrow> storage \<Rightarrow> nat \<Rightarrow> string list \<Rightarrow> chat_summary list" where
  "listChats_loop now ls n [] = []"
| "listChats_loop now ls n (key # keys) =
     (if key \<noteq> [] \<and> prefix ''chat-'' key then
        (case chat_entry now ls n key of
           Inl e \<Rightarrow> listChats_loop now ls n keys
         | Inr (c, n') \<Rightarrow> c # listChats_loop now ls n' keys)
      else listChats_loop now ls n keys)"

text \<open>
  \<open>chats.sort((a, b) => b.createdAt - a.createdAt)\<close>. The subtraction converts its
  operands to numbers: a \<open>Date\<close> to its instant, the string of a date to \<open>NaN\<close> (\<open>None\<close>),
  and a difference with \<open>NaN\<close> is \<open>NaN\<close>. \<open>Array.prototype.sort\<close> takes a comparison that
  answers \<open>NaN\<close> for \<open>+0\<close>, so that the two elements count as equal.
\<close>

fun toNumber :: "time_value \<Rightarrow> int option" where
  "toNumber (Date t) = Some t"
| "toNumber (IsoString t) = None"
| "toNumber (Number n) = Some n"

definition compareFn :: "chat_summary \<Rightarrow> chat_summary \<Rightarrow> int option" where
  "compareFn a b =
     (case toNumber (createdAt b) of
        None \<Rightarrow> None
      | Some y \<Rightarrow> (case toNumber (createdAt a) of None \<Rightarrow> None | Some x \<Rightarrow> Some (y - x)))"

definition sortCompare :: "chat_summary \<Rightarrow> chat_summary \<Rightarrow> int" where
  "sortCompare a b = (case compareFn a b of None \<Rightarrow> 0 | Some v \<Rightarrow> v)"

text \<open>
  The sort itself is a stable one: an element moves to the left past the elements that
  compare greater than it, and stops at the first that does not. (Where the comparisons
  are not consistent with one another, as they can be between numbers and strings, the
  order an engine produces is implementation-defined; this is the order of an insertion
  sort.) \<open>js_insert\<close> works on the sorted part in reverse, its last element first.
\<close>

fun js_insert :: "('a \<Rightarrow> 'a \<Rightarrow> int) \<Rightarrow> 'a \<Rightarrow> 'a list \<Rightarrow> 'a list" where
  "js_insert cmp x [] = [x]"
| "js_insert cmp x (y # ys) = (if cmp y x > 0 then y # js_insert cmp x ys else x # y # ys)"

definition js_sort :: "('a \<Rightarrow> 'a \<Rightarrow> int) \<Rightarrow> 'a list \<Rightarrow> 'a list" where
  "js_sort cmp xs = rev (foldl (\<lambda>acc x. js_insert cmp x acc) [] xs)"

definition listChats :: "window \<Rightarrow> clock \<Rightarrow> error + chat_summary list" where
  "listChats w now =
     (case w of
        None \<Rightarrow> Inr []
      | Some ls \<Rightarrow> Inr (js_sort sortCompare (listChats_loop now ls 0 (map fst ls))))"

subsection \<open>Archiving a thread (components/assistant-ui/thread-list.tsx)\<close>

text \<open>
  The state \<open>handleArchiveThread\<close> works on: the window, the component's \<open>threads\<close> and the
  \<open>activeThreadId\<close> it shares with the chat component (\<open>null\<close> is \<open>None\<close>).
\<close>

record thread_list =
  tl_window :: window
  threads :: "chat_summary list"
  activeThreadId :: "string option"

definition handleArchiveThread :: "string \<Rightarrow> thread_list \<Rightarrow> thread_list" where
  "handleArchiveThread cid s =
     s\<lparr>tl_window := (case tl_window s of
                        None \<Rightarrow> None
                      | Some ls \<Rightarrow> Some (removeItem (chat_key cid) ls)),
       threads := filter (\<lambda>thread. chat_id thread \<noteq> cid) (threads s),
       activeThreadId := (if activeThreadId s = Some cid then Some [] else activeThreadId s)\<rparr>"

subsection \<open>The chat component (ChatComponent)\<close>

text \<open>
  The state of the component, as far as the store is concerned: the window, the
  \<open>activeThreadId\<close> and the \<open>messages\<close> of \<open>useChat\<close>.
\<close>

record chat_component =
  cc_window :: window
  cc_activeThreadId :: "string option"
  cc_messages :: "message list"

text \<open>
  The effect on a change of \<open>activeThreadId\<close>: for a truthy identifier the messages are set
  to what \<open>loadChat\<close> returns; its exception rejects \<open>loadMessages\<close>.
\<close>

definition loadMessages :: "chat_component \<Rightarrow> error + chat_component" where
  "loadMessages s =
     (case cc_activeThreadId s of
        None \<Rightarrow> Inr s
      | Some cid \<Rightarrow>
          if cid \<noteq> [] then
            (case loadChat cid (cc_window s) of
               Inl e \<Rightarrow> Inl e
             | Inr ms \<Rightarrow> Inr (s\<lparr>cc_messages := ms\<rparr>))
          else Inr s)"

text \<open>\<open>handleNewThread\<close>: a conversation is created and made the active one, with no message.\<close>

definition handleNewThread :: "string \<Rightarrow> chat_component \<Rightarrow> chat_component" where
  "handleNewThread fresh s =
     (case createChat fresh (cc_window s) of
        (cid, w) \<Rightarrow> s\<lparr>cc_window := w, cc_activeThreadId := Some cid, cc_messages := []\<rparr>)"

text \<open>
  The effect on a change of \<open>messages\<close>, with the function it calls, and the \<open>onFinish\<close>
  callback of \<open>useChat\<close>. The callback saves \<open>[...messages, message]\<close> for the
  \<open>activeThreadId\<close> and the \<open>messages\<close> of the render whose closure it is (\<open>activeId\<close> and
  \<open>seen\<close>).
\<close>

definition debouncedSaveMessages :: "string \<Rightarrow> message list \<Rightarrow> window \<Rightarrow> window" where
  "debouncedSaveMessages cid messagesToSave w =
     (if cid \<noteq> [] \<and> messagesToSave \<noteq> [] then saveChat cid messagesToSave w else w)"

definition saveMessages :: "chat_component \<Rightarrow> chat_component" where
  "saveMessages s =
     (case cc_activeThreadId s of
        None \<Rightarrow> s
      | Some cid \<Rightarrow>
          if cid \<noteq> [] \<and> cc_messages s \<noteq> [] then
            s\<lparr>cc_window := debouncedSaveMessages cid (cc_messages s) (cc_window s)\<rparr>
          else s)"

definition onFinish :: "string option \<Rightarrow> message list \<Rightarrow> message \<Rightarrow> window \<Rightarrow> window" where
  "onFinish activeId seen msg w =
     (case activeId of
        None \<Rightarrow> w
      | Some cid \<Rightarrow> if cid \<noteq> [] then saveChat cid (seen @ [msg]) w else w)"

section \<open>The chat routes (app/api/chat/openai/route.ts and the groq route)\<close>

subsection \<open>The request\<close>

text \<open>
  A message of the request body, as far as the routes read it. \<open>lastMessage.content\<close> is
  absent, a string, or an array whose items are strings or objects with or without a
  \<open>text\<close> property.
\<close>

datatype part = PartString string | PartObject "string option"

datatype message_content = NoContent | Text string | Parts "part list"

record request_message =
  rq_role :: role
  rq_content :: message_content

text \<open>
  The request: the \<open>messages\<close> of the body and the \<open>userId\<close> parameter of the URL, which
  \<open>searchParams.get\<close> answers with \<open>null\<close> (\<open>None\<close>) when the URL has none.
\<close>

record request =
  req_messages :: "request_message list"
  req_userId :: "string option"

text \<open>\<open>messages[messages.length - 1]\<close>, \<open>undefined\<close> for an empty array.\<close>

definition lastMessage :: "request \<Rightarrow> request_message option" where
  "lastMessage req = (if req_messages req = [] then None else Some (last (req_messages req)))"

text \<open>The guard \<open>lastMessage && lastMessage.content\<close>: an array is truthy, also an empty one.\<close>

fun content_truthy :: "message_content \<Rightarrow> bool" where
  "content_truthy NoContent = False"
| "content_truthy (Text s) = (s \<noteq> [])"
| "content_truthy (Parts ps) = True"

text \<open>\<open>typeof item === "string" ? item : item.text || ""\<close>\<close>

fun part_text :: "part \<Rightarrow> string" where
  "part_text (PartString s) = s"
| "part_text (PartObject None) = []"
| "part_text (PartObject (Some t)) = t"

text \<open>\<open>Array.prototype.join\<close>\<close>

fun join :: "string \<Rightarrow> string list \<Rightarrow> string" where
  "join sep [] = []"
| "join sep [x] = x"
| "join sep (x # y # zs) = x @ sep @ join sep (y # zs)"

fun queryText :: "message_content \<Rightarrow> string" where
  "queryText (Parts ps) = join '' '' (map part_text ps)"
| "queryText (Text s) = s"
| "queryText NoContent = []"

subsection \<open>The retriever\<close>

text \<open>
  A \<open>Document\<close> of the vector store: its text and its metadata, an object read by property
  name (\<open>map_of\<close>; an absent property is \<open>undefined\<close>, \<open>None\<close>). The scope a document was
  indexed under is its \<open>userId\<close> metadata, the property the filter of the openai route names.
\<close>

record document =
  pageContent :: string
  metadata :: "(string \<times> string) list"

text \<open>
  The index behind \<open>retriever.invoke\<close>, for the query of one request: either the call fails
  (\<open>Unavailable\<close>), or the index holds the documents \<open>ds\<close>, given in descending order of their
  similarity to the query (\<open>Ranked ds\<close>).
\<close>

datatype vector_index = Unavailable | Ranked "document list"

definition quote :: string where
  "quote = [CHR 0x27]"

definition nl :: string where
  "nl = [CHR 0x0A]"

text \<open>
  The metadata filter of the index, for the two filters the routes build: the empty
  filter restricts nothing, and \<open>userId = 'u'\<close> admits the documents whose \<open>userId\<close> is \<open>u\<close>.
\<close>

definition matches :: "string \<Rightarrow> document \<Rightarrow> bool" where
  "matches flt d =
     (flt = [] \<or>
      (case map_of (metadata d) ''userId'' of
         None \<Rightarrow> False
       | Some u \<Rightarrow> flt = ''userId = '' @ quote @ u @ quote))"

text \<open>\<open>store.asRetriever({filter, k}).invoke(queryText)\<close>: the \<open>k\<close> best admitted documents.\<close>

definition invoke :: "vector_index \<Rightarrow> string \<Rightarrow> nat \<Rightarrow> string \<Rightarrow> error + document list" where
  "invoke idx flt k q =
     (case idx of
        Unavailable \<Rightarrow> Inl RetrieverError
      | Ranked ds \<Rightarrow> Inr (take k (filter (matches flt) ds)))"

subsection \<open>From the request to the call of streamText\<close>

text \<open>
  What a route has done when it calls \<open>streamText\<close>: the query texts \<open>retriever.invoke\<close> was
  called with, what \<open>retrievedDocs\<close> holds, and the \<open>messages\<close> and \<open>system\<close> arguments of
  the call (\<open>undefined\<close> is \<open>None\<close>).
\<close>

record generation =
  queries :: "string list"
  retrievedDocs :: "document list"
  gen_messages :: "request_message list"
  system :: "string option"

text \<open>
  The retrieval block, the same text in both routes but for the filter: the guard, the
  query text, and the \<open>try\<close> whose \<open>catch\<close> logs and leaves \<open>retrievedDocs\<close> empty. It
  answers the queries made and the documents.
\<close>

definition retrieve :: "string \<Rightarrow> request \<Rightarrow> vector_index \<Rightarrow> string list \<times> document list" where
  "retrieve flt req idx =
     (case lastMessage req of
        None \<Rightarrow> ([], [])
      | Some m \<Rightarrow>
          if content_truthy (rq_content m) then
            (let q = queryText (rq_content m) in
             case invoke idx flt 3 q of
               Inl e \<Rightarrow> ([q], [])
             | Inr ds \<Rightarrow> ([q], ds))
          else ([], []))"

definition digit :: "nat \<Rightarrow> char" where
  "digit d = ''0123456789'' ! d"

fun string_of_nat :: "nat \<Rightarrow> string" where
  "string_of_nat n =
     (if n < 10 then [digit n] else string_of_nat (n div 10) @ [digit (n mod 10)])"

text \<open>
  \<open>x || "Unknown"\<close> on a property, and the conversion of a template literal: of a property,
  \<open>undefined\<close> when it is absent, and of a parameter of the URL, \<open>null\<close> when it is absent.
\<close>

fun or_default :: "string option \<Rightarrow> string \<Rightarrow> string" where
  "or_default None d = d"
| "or_default (Some s) d = (if s = [] then d else s)"

fun template :: "string option \<Rightarrow> string" where
  "template None = ''undefined''"
| "template (Some s) = s"

fun template_param :: "string option \<Rightarrow> string" where
  "template_param None = ''null''"
| "template_param (Some s) = s"

definition preamble :: string where
  "preamble = ''You have access to the following retrieved context documents. When answering, cite sources using [Source: URL] format when referencing specific information.''"

definition system_prompt :: "document list \<Rightarrow> string \<Rightarrow> string option" where
  "system_prompt docs contextText =
     (if docs \<noteq> [] then Some (preamble @ nl @ nl @ contextText) else None)"

text \<open>The openai route: the filter names the \<open>userId\<close> parameter; a document is numbered.\<close>

definition openai_filter :: "request \<Rightarrow> string" where
  "openai_filter req = ''userId = '' @ quote @ template_param (req_userId req) @ quote"

definition openai_block :: "nat \<times> document \<Rightarrow> string" where
  "openai_block p =
     (case p of (index, doc) \<Rightarrow>
        ''Document '' @ string_of_nat (index + 1) @ '':'' @ nl @ pageContent doc @ nl
          @ ''Source: '' @ or_default (map_of (metadata doc) ''source'') ''Unknown'' @ nl)"

definition openai_contextText :: "document list \<Rightarrow> string" where
  "openai_contextText docs =
     (if docs \<noteq> [] then join nl (map openai_block (enumerate 0 docs)) else [])"

definition openai_turn :: "request \<Rightarrow> vector_index \<Rightarrow> generation" where
  "openai_turn req idx =
     (case retrieve (openai_filter req) req idx of
        (qs, docs) \<Rightarrow>
          \<lparr>queries = qs, retrievedDocs = docs, gen_messages = req_messages req,
           system = system_prompt docs (openai_contextText docs)\<rparr>)"

text \<open>The groq route: the filter is the empty string; a document is labelled by its \<open>url\<close>.\<close>

definition groq_block :: "document \<Rightarrow> string" where
  "groq_block doc =
     ''Document '' @ template (map_of (metadata doc) ''url'') @ '':'' @ nl @ pageContent doc @ nl
       @ ''Source: '' @ or_default (map_of (metadata doc) ''url'') ''Unknown'' @ nl"

definition groq_contextText :: "document list \<Rightarrow> string" where
  "groq_contextText docs = (if docs \<noteq> [] then join nl (map groq_block docs) else [])"

definition groq_turn :: "request \<Rightarrow> vector_index \<Rightarrow> generation" where
  "groq_turn req idx =
     (case retrieve [] req idx of
        (qs, docs) \<Rightarrow>
          \<lparr>queries = qs, retrievedDocs = docs, gen_messages = req_messages req,
           system = system_prompt docs (groq_contextText docs)\<rparr>)"

subsection \<open>The generation\<close>

text \<open>
  The model behind \<open>streamText\<close>: for the messages and the system prompt of a call it
  streams text fragments, or fails before the first one. The assistant message of the
  turn is the concatenation of the fragments; the route answers with the stream.
\<close>

type_synonym provider = "request_message list \<Rightarrow> string option \<Rightarrow> error + string list"

definition streamText :: "provider \<Rightarrow> generation \<Rightarrow> error + request_message" where
  "streamText model g =
     (case model (gen_messages g) (system g) of
        Inl e \<Rightarrow> Inl e
      | Inr fragments \<Rightarrow> Inr \<lparr>rq_role = Assistant, rq_content = Text (concat fragments)\<rparr>)"

definition POST_openai :: "provider \<Rightarrow> request \<Rightarrow> vector_index \<Rightarrow> error + request_message" where
  "POST_openai model req idx = streamText model (openai_turn req idx)"

definition POST_groq :: "provider \<Rightarrow> request \<Rightarrow> vector_index \<Rightarrow> error + request_message" where
  "POST_groq model req idx = streamText model (groq_turn req idx)"

section \<open>Notions of the specification\<close>

text \<open>
  A conversation is known to the store when its key is one of the storage (there is no
  storage without a window).
\<close>

definition known :: "window \<Rightarrow> string \<Rightarrow> bool" where
  "known w cid = (case w of None \<Rightarrow> False | Some ls \<Rightarrow> chat_key cid \<in> fst ` set ls)"

text \<open>The record under a key parses: \<open>JSON.parse\<close> returns for the text \<open>listChats\<close> reads.\<close>

definition parses :: "storage \<Rightarrow> string \<Rightarrow> bool" where
  "parses ls key = (case JSON_parse (stored_text ls key) of Inl e \<Rightarrow> False | Inr ms \<Rightarrow> True)"

text \<open>The keys of conversations whose record parses, in the order of the storage.\<close>

definition listed_keys :: "storage \<Rightarrow> string list \<Rightarrow> string list" where
  "listed_keys ls keys = filter (\<lambda>key. prefix ''chat-'' key \<and> parses ls key) keys"

text \<open>A clock for the examples: it starts at 1700000000000 and advances at each reading.\<close>

definition tick :: clock where
  "tick k = 1700000000000 + int k"

text \<open>
  The message sequences of the amended round trip: a message comes back with the
  identifier, the role and the content it had, and with the \<open>createdAt\<close> it had unless that
  was a \<open>Date\<close>, of which nothing is said.
\<close>

definition preserved :: "message \<Rightarrow> message \<Rightarrow> bool" where
  "preserved m m' \<longleftrightarrow>
     msg_id m' = msg_id m \<and> role m' = role m \<and> content m' = content m
     \<and> (case msg_createdAt m of
          Some (Date t) \<Rightarrow> True
        | v \<Rightarrow> msg_createdAt m' = v)"

text \<open>
  Messages for the examples, as \<open>useChat\<close> makes them: the question of the user, asked at
  the instant 1600000000000, and a later one, asked at 1700000000000.
\<close>

definition question :: message where
  "question =
     \<lparr>msg_id = ''msg_1'', role = User, content = ''What is X?'',
      msg_createdAt = Some (Date 1600000000000)\<rparr>"

definition later_question :: message where
  "later_question =
     \<lparr>msg_id = ''msg_5'', role = User, content = ''What is Y?'',
      msg_createdAt = Some (Date 1700000000000)\<rparr>"

text \<open>
  A storage for the examples: a conversation of two messages whose first is the user's and
  longer than thirty code units, an entry that is no chat, a chat whose record is no JSON
  text, and an empty conversation.
\<close>

definition sample_storage :: storage where
  "sample_storage =
     [(''chat-A'', Json [\<lparr>msg_id = ''msg_1'', role = User,
                          content = ''What is X? Please answer in detail.'',
                          msg_createdAt = Some (IsoString 1600000000000)\<rparr>,
                        \<lparr>msg_id = ''msg_2'', role = Assistant, content = ''X is a widget.'',
                          msg_createdAt = Some (IsoString 1600000000500)\<rparr>]),
      (''theme'', Raw ''dark''),
      (''chat-B'', Raw ''{not json''),
      (''chat-C'', Json [])]"

text \<open>The scope key a passage was indexed under.\<close>

definition scope :: "document \<Rightarrow> string option" where
  "scope d = map_of (metadata d) ''userId''"

text \<open>A query text of white space only (space, tab, line feed, carriage return).\<close>

definition is_space :: "char \<Rightarrow> bool" where
  "is_space c = (c = CHR '' '' \<or> c = CHR 0x09 \<or> c = CHR 0x0A \<or> c = CHR 0x0D)"

definition whitespace_only :: "string \<Rightarrow> bool" where
  "whitespace_only s = list_all is_space s"

text \<open>
  The request has no query content: it has no last message, or the content of the last
  message is absent or the empty string.
\<close>

definition no_query_content :: "request \<Rightarrow> bool" where
  "no_query_content req =
     (case lastMessage req of
        None \<Rightarrow> True
      | Some m \<Rightarrow> rq_content m = NoContent \<or> rq_content m = Text [])"

text \<open>
  The request and the passages of the examples: the question \<open>What is X?\<close> of the user
  \<open>alice\<close>, a passage of its scope, and a passage indexed under the scope \<open>bob\<close>.
\<close>

definition sample_request :: request where
  "sample_request =
     \<lparr>req_messages = [\<lparr>rq_role = User, rq_content = Text ''What is X?''\<rparr>],
      req_userId = Some ''alice''\<rparr>"

definition widget_doc :: document where
  "widget_doc =
     \<lparr>pageContent = ''X is a widget'',
      metadata = [(''userId'', ''alice''), (''source'', ''docs://x''), (''url'', ''docs://x'')]\<rparr>"

definition bob_doc :: document where
  "bob_doc =
     \<lparr>pageContent = ''Notes of Bob'',
      metadata = [(''userId'', ''bob''), (''source'', ''docs://bob''), (''url'', ''docs://bob'')]\<rparr>"

text \<open>
  The passage of the scenario of the specification, with the text \<open>X is a widget\<close> and the
  source \<open>docs://x\<close>: its locator is the \<open>source\<close> property, and it has no \<open>url\<close> property.
\<close>

definition source_doc :: document where
  "source_doc =
     \<lparr>pageContent = ''X is a widget'',
      metadata = [(''userId'', ''alice''), (''source'', ''docs://x'')]\<rparr>"

section \<open>Properties of the chat store\<close>

subsection \<open>Storage and keys\<close>

lemma getItem_setItem: "getItem k (setItem k v ls) = Some v"
  by (simp add: getItem_def setItem_def update_conv')

lemma getItem_removeItem: "getItem k (removeItem k ls) = None"
  by (simp add: getItem_def removeItem_def delete_conv')

lemma getItem_None_iff: "getItem k ls = None \<longleftrightarrow> k \<notin> fst ` set ls"
  by (simp add: getItem_def map_of_eq_None_iff)

lemma replace_first_prefix: "prefix pat s \<Longrightarrow> replace_first pat rep s = rep @ drop (length pat) s"
  by (cases s) auto

lemma chat_key_drop: "prefix ''chat-'' key \<Longrightarrow> chat_key (replace_first ''chat-'' [] key) = key"
  by (auto simp: replace_first_prefix chat_key_def prefix_def)

lemma replace_first_chat_key: "replace_first ''chat-'' [] (chat_key cid) = cid"
  by (simp add: chat_key_def)

lemma loadChat_stored_text: "loadChat cid (Some ls) = JSON_parse (stored_text ls (chat_key cid))"
  by (simp add: loadChat_def stored_text_def split: option.splits)

lemma loadChat_not_known: "\<not> known w cid \<Longrightarrow> loadChat cid w = Inr []"
  by (auto simp: known_def loadChat_def getItem_None_iff [symmetric] split: option.splits)

subsection \<open>The sort\<close>

lemma set_js_insert: "set (js_insert cmp x ys) = insert x (set ys)"
  by (induction ys) auto

lemma set_foldl_js_insert:
  "set (foldl (\<lambda>acc x. js_insert cmp x acc) ys xs) = set xs \<union> set ys"
  by (induction xs arbitrary: ys) (auto simp: set_js_insert)

lemma set_js_sort: "set (js_sort cmp xs) = set xs"
  by (simp add: js_sort_def set_foldl_js_insert)

text \<open>Where no element compares greater than a later one, the sort changes nothing.\<close>

lemma foldl_js_insert_kept:
  assumes "\<And>a b. a \<in> set ys \<union> set xs \<Longrightarrow> b \<in> set xs \<Longrightarrow> cmp a b \<le> 0"
  shows "foldl (\<lambda>acc x. js_insert cmp x acc) ys xs = rev xs @ ys"
  using assms
proof (induction xs arbitrary: ys)
  case Nil
  show ?case by simp
next
  case (Cons x xs)
  have ins: "js_insert cmp x ys = x # ys"
  proof (cases ys)
    case Nil
    then show ?thesis by simp
  next
    case (Cons y ys')
    with Cons.prems [of y x] show ?thesis by simp
  qed
  have "foldl (\<lambda>acc x. js_insert cmp x acc) (x # ys) xs = rev xs @ x # ys"
    by (rule Cons.IH) (use Cons.prems in auto)
  with ins show ?case by simp
qed

lemma js_sort_kept:
  assumes "\<And>a b. a \<in> set xs \<Longrightarrow> b \<in> set xs \<Longrightarrow> cmp a b \<le> 0"
  shows "js_sort cmp xs = xs"
  using foldl_js_insert_kept [of "[]" xs cmp] assms by (simp add: js_sort_def)

lemma sortCompare_IsoString:
  "createdAt a = IsoString t \<Longrightarrow> sortCompare a b = 0 \<and> sortCompare b a = 0"
  by (simp add: sortCompare_def compareFn_def split: option.splits)

subsection \<open>The loop of listChats\<close>

lemma chat_entry_Inl: "\<not> parses ls key \<Longrightarrow> \<exists>e. chat_entry now ls n key = Inl e"
  by (auto simp: chat_entry_def parses_def Let_def split: sum.splits)

lemma chat_entry_Inr:
  "parses ls key \<Longrightarrow> \<exists>c n'. chat_entry now ls n key = Inr (c, n') \<and> chat_id c = replace_first ''chat-'' [] key"
  by (auto simp: chat_entry_def parses_def Let_def split: sum.splits prod.splits)

lemma loop_ids:
  "map chat_id (listChats_loop now ls n keys) = map (replace_first ''chat-'' []) (listed_keys ls keys)"
proof (induction keys arbitrary: n)
  case Nil
  show ?case by (simp add: listed_keys_def)
next
  case (Cons key keys)
  show ?case
  proof (cases "prefix ''chat-'' key")
    case False
    with Cons show ?thesis by (simp add: listed_keys_def)
  next
    case pre: True
    then have ne: "key \<noteq> []" by auto
    show ?thesis
    proof (cases "parses ls key")
      case True
      from chat_entry_Inr [OF True, of now n] obtain c n'
        where "chat_entry now ls n key = Inr (c, n')" "chat_id c = replace_first ''chat-'' [] key"
        by blast
      with Cons [of n'] pre ne True show ?thesis by (simp add: listed_keys_def)
    next
      case False
      from chat_entry_Inl [OF False, of now n] obtain e where "chat_entry now ls n key = Inl e"
        by blast
      with Cons [of n] pre ne False show ?thesis by (simp add: listed_keys_def)
    qed
  qed
qed


lemma loop_listed_iff:
  "cid \<in> chat_id ` set (listChats_loop now ls n keys)
     \<longleftrightarrow> chat_key cid \<in> set keys \<and> parses ls (chat_key cid)"
proof -
  have "chat_id ` set (listChats_loop now ls n keys)
          = replace_first ''chat-'' [] ` set (listed_keys ls keys)"
    using loop_ids [of now ls n keys] by (metis set_map)
  moreover have "cid \<in> replace_first ''chat-'' [] ` set (listed_keys ls keys)
     \<longleftrightarrow> chat_key cid \<in> set keys \<and> parses ls (chat_key cid)"
  proof
    assume "cid \<in> replace_first ''chat-'' [] ` set (listed_keys ls keys)"
    then obtain key where k: "key \<in> set keys" "prefix ''chat-'' key" "parses ls key"
      "cid = replace_first ''chat-'' [] key"
      by (auto simp: listed_keys_def)
    then have "chat_key cid = key" by (simp add: chat_key_drop)
    with k show "chat_key cid \<in> set keys \<and> parses ls (chat_key cid)" by simp
  next
    assume a: "chat_key cid \<in> set keys \<and> parses ls (chat_key cid)"
    have "prefix ''chat-'' (chat_key cid)" by (simp add: chat_key_def)
    with a have "chat_key cid \<in> set (listed_keys ls keys)" by (simp add: listed_keys_def)
    then have "replace_first ''chat-'' [] (chat_key cid)
                 \<in> replace_first ''chat-'' [] ` set (listed_keys ls keys)"
      by (rule imageI)
    then show "cid \<in> replace_first ''chat-'' [] ` set (listed_keys ls keys)"
      by (simp add: replace_first_chat_key)
  qed
  ultimately show ?thesis by simp
qed

lemma parses_loadChat: "parses ls (chat_key cid) \<longleftrightarrow> (\<exists>ms. loadChat cid (Some ls) = Inr ms)"
  by (auto simp: parses_def loadChat_stored_text split: sum.splits)

lemma listChats_listed_iff:
  "\<exists>cs. listChats w now = Inr cs
     \<and> (\<forall>cid. cid \<in> chat_id ` set cs \<longleftrightarrow> known w cid \<and> (\<exists>ms. loadChat cid w = Inr ms))"
proof (cases w)
  case None
  then show ?thesis by (simp add: listChats_def known_def)
next
  case (Some ls)
  have "\<forall>cid. cid \<in> chat_id ` set (js_sort sortCompare (listChats_loop now ls 0 (map fst ls)))
           \<longleftrightarrow> known (Some ls) cid \<and> (\<exists>ms. loadChat cid (Some ls) = Inr ms)"
    using loop_listed_iff [of _ now ls 0 "map fst ls"]
    by (simp add: known_def parses_loadChat set_js_sort)
  with Some show ?thesis by (simp add: listChats_def)
qed


lemma listChats_unknown:
  assumes "\<not> known w cid"
  shows "\<exists>cs. listChats w now = Inr cs \<and> cid \<notin> chat_id ` set cs"
  using listChats_listed_iff [of w now] assms by blast

lemma not_known_archived: "\<not> known (tl_window (handleArchiveThread cid s)) cid"
  by (auto simp: known_def handleArchiveThread_def removeItem_def delete_notin_dom
      split: option.splits)

lemma loop_filter_parses:
  "listChats_loop now ls n (filter (parses ls) keys) = listChats_loop now ls n keys"
proof (induction keys arbitrary: n)
  case Nil
  show ?case by simp
next
  case (Cons key keys)
  show ?case
  proof (cases "parses ls key")
    case True
    with Cons show ?thesis by (simp split: sum.splits prod.splits)
  next
    case False
    from chat_entry_Inl [OF False, of now n] obtain e where "chat_entry now ls n key = Inl e"
      by blast
    with False Cons show ?thesis by simp
  qed
qed

lemma loop_cong:
  "(\<And>key. key \<in> set keys \<Longrightarrow> stored_text ls' key = stored_text ls key) \<Longrightarrow>
     listChats_loop now ls' n keys = listChats_loop now ls n keys"
proof (induction keys arbitrary: n)
  case Nil
  show ?case by simp
next
  case (Cons key keys)
  have e: "chat_entry now ls' n key = chat_entry now ls n key"
    using Cons.prems [of key] by (simp add: chat_entry_def)
  have "\<And>m. listChats_loop now ls' m keys = listChats_loop now ls m keys"
    using Cons.IH Cons.prems by simp
  with e show ?case by (simp split: sum.splits prod.splits)
qed

lemma map_of_filter_fst:
  "map_of (filter (\<lambda>p. P (fst p)) ls) k = (if P k then map_of ls k else None)"
  by (induction ls) auto

lemma stored_text_filter:
  "parses ls key \<Longrightarrow> stored_text (filter (\<lambda>p. parses ls (fst p)) ls) key = stored_text ls key"
  by (simp add: stored_text_def getItem_def map_of_filter_fst)

lemma listChats_filter_parses:
  "listChats (Some (filter (\<lambda>p. parses ls (fst p)) ls)) now = listChats (Some ls) now"
proof -
  let ?ls' = "filter (\<lambda>p. parses ls (fst p)) ls"
  have keys: "map fst ?ls' = filter (parses ls) (map fst ls)"
    by (simp add: filter_map comp_def)
  have "listChats_loop now ?ls' 0 (filter (parses ls) (map fst ls))
          = listChats_loop now ls 0 (filter (parses ls) (map fst ls))"
    by (rule loop_cong) (simp add: stored_text_filter)
  then have "listChats_loop now ?ls' 0 (map fst ?ls') = listChats_loop now ls 0 (map fst ls)"
    by (simp only: keys loop_filter_parses)
  then show ?thesis by (simp only: listChats_def option.case)
qed

text \<open>Summaries whose \<open>createdAt\<close> are all strings of dates stay in the order of the storage.\<close>

lemma listChats_IsoString_order:
  assumes "\<And>c. c \<in> set (listChats_loop now ls 0 (map fst ls)) \<Longrightarrow> \<exists>t. createdAt c = IsoString t"
  shows "listChats (Some ls) now = Inr (listChats_loop now ls 0 (map fst ls))"
proof -
  have "js_sort sortCompare (listChats_loop now ls 0 (map fst ls))
          = listChats_loop now ls 0 (map fst ls)"
  proof (rule js_sort_kept)
    fix a b
    assume "a \<in> set (listChats_loop now ls 0 (map fst ls))"
    from assms [OF this] obtain t where "createdAt a = IsoString t" by blast
    then show "sortCompare a b \<le> 0" by (simp add: sortCompare_IsoString)
  qed
  then show ?thesis by (simp add: listChats_def)
qed

lemma preserved_toJSON: "preserved m (toJSON m)"
  by (cases "msg_createdAt m")
    (auto simp: preserved_def toJSON_def split: option.splits time_value.splits)

lemma listChats_sample:
  "listChats (Some sample_storage) tick =
     Inr [\<lparr>chat_id = ''A'', title = ''What is X? Please answer in de...'',
           createdAt = IsoString 1600000000000\<rparr>,
          \<lparr>chat_id = ''C'', title = ''Chat C'', createdAt = Number 1700000000000\<rparr>]"
  by (simp add: listChats_def sample_storage_def chat_entry_def stored_text_def getItem_def
      chat_title_def chat_createdAt_def tick_def Let_def js_sort_def sortCompare_def
      compareFn_def)

lemma loadMessages_unknown:
  assumes "\<not> known (cc_window s) cid" and "cid \<noteq> []"
  shows "loadMessages (s\<lparr>cc_activeThreadId := Some cid\<rparr>)
           = Inr (s\<lparr>cc_activeThreadId := Some cid, cc_messages := []\<rparr>)"
  using loadChat_not_known [OF assms(1)] assms(2)
  by (simp add: loadMessages_def)

lemma handleNewThread_messages: "cc_messages (handleNewThread fresh s) = []"
  by (simp add: handleNewThread_def createChat_def)

subsection \<open>Claims about the chat store\<close>

text \<open>
  C4, as amended. In a browser, \<open>saveChat\<close> of a message sequence followed by \<open>loadChat\<close> of
  the same identifier returns, whatever the storage held before, a sequence of the same
  messages in the same order: each has the identifier, the role and the content it had,
  and the \<open>createdAt\<close> it had unless that was a \<open>Date\<close> (of a \<open>Date\<close> nothing is said).
  Without a window \<open>saveChat\<close> stores nothing and \<open>loadChat\<close> returns the empty sequence.
\<close>

theorem saveChat_loadChat:
  "(\<exists>ms'. loadChat cid (saveChat cid ms (Some ls)) = Inr ms' \<and> list_all2 preserved ms ms')
   \<and> loadChat cid (saveChat cid ms None) = Inr []"
proof -
  have "loadChat cid (saveChat cid ms (Some ls)) = Inr (map toJSON ms)"
    by (simp add: loadChat_def saveChat_def getItem_setItem JSON_stringify_def)
  moreover have "list_all2 preserved ms (map toJSON ms)"
    by (simp add: list_all2_map2 list_all2_same preserved_toJSON)
  moreover have "loadChat cid (saveChat cid ms None) = Inr []"
    by (simp add: loadChat_def saveChat_def)
  ultimately show ?thesis by blast
qed

theorem saveChat_loadChat_witness:
  "\<exists>ms'. loadChat ''A''
            (saveChat ''A''
               [question,
                \<lparr>msg_id = ''msg_2'', role = Assistant, content = ''X is a widget.'',
                  msg_createdAt = Some (IsoString 1600000000500)\<rparr>]
               (Some sample_storage)) = Inr ms'
         \<and> list_all2 preserved
              [question,
               \<lparr>msg_id = ''msg_2'', role = Assistant, content = ''X is a widget.'',
                 msg_createdAt = Some (IsoString 1600000000500)\<rparr>]
              ms'"
  using saveChat_loadChat [of "''A''" _ sample_storage] by blast

text \<open>
  C4 as stated fails twice for the one message \<open>question\<close>, whose \<open>createdAt\<close> is a \<open>Date\<close> as
  \<open>useChat\<close> makes it. On the server, where the openai route calls \<open>saveChat\<close>, the empty
  sequence is loaded. In a browser the message is loaded with the string of the date for
  its \<open>createdAt\<close>, which is not the message that was saved.
\<close>

theorem saveChat_loadChat_counterexample:
  "loadChat ''A'' (saveChat ''A'' [question] None) = Inr []
   \<and> loadChat ''A'' (saveChat ''A'' [question] (Some []))
       = Inr [\<lparr>msg_id = ''msg_1'', role = User, content = ''What is X?'',
                msg_createdAt = Some (IsoString 1600000000000)\<rparr>]
   \<and> loadChat ''A'' (saveChat ''A'' [question] (Some [])) \<noteq> Inr [question]"
  by (simp add: loadChat_def saveChat_def getItem_def setItem_def chat_key_def
      JSON_stringify_def toJSON_def question_def)

text \<open>
  C9. For an identifier the store does not know, \<open>loadChat\<close> returns the empty sequence and
  no error, which is what it returns for a conversation \<open>createChat\<close> has just made. The chat
  component that is given the identifier loads the empty message list and leaves the
  storage as it is: it holds the messages it holds after \<open>handleNewThread\<close>.
\<close>

theorem loadChat_unknown:
  assumes "\<not> known (cc_window s) cid"
  shows "loadChat cid (cc_window s) = Inr []
         \<and> loadChat cid (cc_window s) = loadChat fresh (snd (createChat fresh (cc_window s)))
         \<and> (cid \<noteq> [] \<longrightarrow>
              loadMessages (s\<lparr>cc_activeThreadId := Some cid\<rparr>)
                = Inr (s\<lparr>cc_activeThreadId := Some cid, cc_messages := []\<rparr>))
         \<and> cc_messages (handleNewThread fresh s) = []"
proof -
  have "loadChat fresh (snd (createChat fresh (cc_window s))) = Inr []"
    by (cases "cc_window s")
      (simp_all add: createChat_def loadChat_def getItem_setItem JSON_stringify_def)
  with loadChat_not_known [OF assms] loadMessages_unknown [OF assms] handleNewThread_messages
  show ?thesis by simp
qed

theorem loadChat_unknown_witness:
  "loadChat ''Z'' (Some sample_storage) = Inr []
   \<and> loadChat ''Z'' None = Inr []
   \<and> loadChat ''Z'' (Some sample_storage)
       = loadChat ''N'' (snd (createChat ''N'' (Some sample_storage)))
   \<and> loadMessages \<lparr>cc_window = Some sample_storage, cc_activeThreadId = Some ''Z'', cc_messages = []\<rparr>
       = Inr \<lparr>cc_window = Some sample_storage, cc_activeThreadId = Some ''Z'', cc_messages = []\<rparr>"
proof -
  let ?s = "\<lparr>cc_window = Some sample_storage, cc_activeThreadId = None, cc_messages = []\<rparr>"
  let ?t = "\<lparr>cc_window = None, cc_activeThreadId = None, cc_messages = []\<rparr>"
  have k1: "\<not> known (cc_window ?s) ''Z''"
    by (simp add: known_def chat_key_def sample_storage_def)
  have k2: "\<not> known (cc_window ?t) ''Z''"
    by (simp add: known_def)
  from loadChat_unknown [OF k1, of "''N''"] loadChat_unknown [OF k2, of "''N''"]
  show ?thesis by auto
qed

text \<open>
  C8. Archiving twice is archiving once; archiving an identifier the store does not know
  leaves the storage as it is, and the whole state when the identifier is neither among
  the threads nor active; after archiving, the identifier is unknown to the store,
  \<open>loadChat\<close> returns the empty sequence for it, \<open>listChats\<close> does not list it, and the
  component's threads do not hold it.
\<close>

theorem handleArchiveThread_archives:
  "handleArchiveThread cid (handleArchiveThread cid s) = handleArchiveThread cid s
   \<and> (\<not> known (tl_window s) cid \<longrightarrow> tl_window (handleArchiveThread cid s) = tl_window s)
   \<and> (\<not> known (tl_window s) cid \<and> cid \<notin> chat_id ` set (threads s) \<and> activeThreadId s \<noteq> Some cid
        \<longrightarrow> handleArchiveThread cid s = s)
   \<and> \<not> known (tl_window (handleArchiveThread cid s)) cid
   \<and> loadChat cid (tl_window (handleArchiveThread cid s)) = Inr []
   \<and> (\<exists>cs. listChats (tl_window (handleArchiveThread cid s)) now = Inr cs \<and> cid \<notin> chat_id ` set cs)
   \<and> cid \<notin> chat_id ` set (threads (handleArchiveThread cid s))"
proof -
  have idem: "handleArchiveThread cid (handleArchiveThread cid s) = handleArchiveThread cid s"
    by (cases "tl_window s") (auto simp: handleArchiveThread_def removeItem_def delete_idem)
  have noop: "\<not> known (tl_window s) cid \<longrightarrow> tl_window (handleArchiveThread cid s) = tl_window s"
    by (cases "tl_window s") (auto simp: handleArchiveThread_def removeItem_def known_def)
  have same: "\<not> known (tl_window s) cid \<and> cid \<notin> chat_id ` set (threads s)
        \<and> activeThreadId s \<noteq> Some cid \<longrightarrow> handleArchiveThread cid s = s"
  proof
    assume a: "\<not> known (tl_window s) cid \<and> cid \<notin> chat_id ` set (threads s)
        \<and> activeThreadId s \<noteq> Some cid"
    then have "filter (\<lambda>thread. chat_id thread \<noteq> cid) (threads s) = threads s"
      by (auto simp: filter_id_conv)
    with a noop show "handleArchiveThread cid s = s"
      by (cases "tl_window s") (auto simp: handleArchiveThread_def)
  qed
  have thr: "cid \<notin> chat_id ` set (threads (handleArchiveThread cid s))"
    by (auto simp: handleArchiveThread_def)
  from idem noop same thr not_known_archived [of cid s]
    loadChat_not_known [OF not_known_archived [of cid s]]
    listChats_unknown [OF not_known_archived [of cid s], of now]
  show ?thesis by blast
qed

theorem handleArchiveThread_archives_witness:
  "tl_window (handleArchiveThread ''Z''
      \<lparr>tl_window = Some sample_storage, threads = [], activeThreadId = Some ''A''\<rparr>)
     = Some sample_storage
   \<and> loadChat ''A'' (tl_window (handleArchiveThread ''A''
        \<lparr>tl_window = Some sample_storage, threads = [], activeThreadId = Some ''A''\<rparr>)) = Inr []"
proof -
  let ?s = "\<lparr>tl_window = Some sample_storage, threads = [], activeThreadId = Some ''A''\<rparr>"
  have unknown: "\<not> known (tl_window ?s) ''Z''"
    by (simp add: known_def sample_storage_def chat_key_def)
  from handleArchiveThread_archives [of "''Z''" ?s tick] unknown
  have "tl_window (handleArchiveThread ''Z'' ?s) = tl_window ?s" by blast
  moreover from handleArchiveThread_archives [of "''A''" ?s tick]
  have "loadChat ''A'' (tl_window (handleArchiveThread ''A'' ?s)) = Inr []" by blast
  ultimately show ?thesis by simp
qed

text \<open>
  C10. \<open>listChats\<close> returns, whatever the storage holds. The result is the one for the
  storage without the records that do not parse, and a conversation is listed exactly when
  the store knows it and its record parses (\<open>loadChat\<close> returns for it).
\<close>

theorem listChats_skips_unparsable:
  "\<exists>cs. listChats (Some ls) now = Inr cs
     \<and> listChats (Some (filter (\<lambda>p. parses ls (fst p)) ls)) now = Inr cs
     \<and> (\<forall>cid. cid \<in> chat_id ` set cs
            \<longleftrightarrow> known (Some ls) cid \<and> (\<exists>ms. loadChat cid (Some ls) = Inr ms))"
  using listChats_listed_iff [of "Some ls" now] by (simp add: listChats_filter_parses)

theorem listChats_skips_unparsable_witness:
  "loadChat ''B'' (Some sample_storage) = Inl SyntaxError
   \<and> listChats (Some sample_storage) tick =
       Inr [\<lparr>chat_id = ''A'', title = ''What is X? Please answer in de...'',
             createdAt = IsoString 1600000000000\<rparr>,
            \<lparr>chat_id = ''C'', title = ''Chat C'', createdAt = Number 1700000000000\<rparr>]
   \<and> listChats (Some (filter (\<lambda>p. parses sample_storage (fst p)) sample_storage)) tick =
       Inr [\<lparr>chat_id = ''A'', title = ''What is X? Please answer in de...'',
             createdAt = IsoString 1600000000000\<rparr>,
            \<lparr>chat_id = ''C'', title = ''Chat C'', createdAt = Number 1700000000000\<rparr>]"
proof -
  have "loadChat ''B'' (Some sample_storage) = Inl SyntaxError"
    by (simp add: loadChat_def sample_storage_def getItem_def chat_key_def)
  with listChats_skips_unparsable [of sample_storage tick] listChats_sample
  show ?thesis by auto
qed

text \<open>
  C7 fails in the order of the summaries. Conversation \<open>A\<close> is saved with a message of the
  instant 1600000000000 and then conversation \<open>B\<close> with a message of the later instant
  1700000000000, both as \<open>useChat\<close> makes them. The storage holds the strings of the two
  dates, their difference is \<open>NaN\<close>, and the sort leaves the summaries in the order of the
  storage: the older conversation comes first. The titles are the first user messages.
\<close>

theorem listChats_keeps_storage_order:
  "listChats (saveChat ''B'' [later_question] (saveChat ''A'' [question] (Some []))) tick
     = Inr [\<lparr>chat_id = ''A'', title = ''What is X?'', createdAt = IsoString 1600000000000\<rparr>,
            \<lparr>chat_id = ''B'', title = ''What is Y?'', createdAt = IsoString 1700000000000\<rparr>]"
  by (simp add: saveChat_def setItem_def chat_key_def JSON_stringify_def toJSON_def
      question_def later_question_def listChats_def chat_entry_def stored_text_def getItem_def
      chat_title_def chat_createdAt_def Let_def js_sort_def sortCompare_def compareFn_def)

section \<open>Properties of the chat routes\<close>

subsection \<open>Retrieval\<close>

lemma content_truthy_iff: "content_truthy c \<longleftrightarrow> c \<noteq> NoContent \<and> c \<noteq> Text []"
  by (cases c) auto

lemma retrieve_skipped:
  "no_query_content req \<Longrightarrow> retrieve flt req idx = ([], [])"
  by (auto simp: no_query_content_def retrieve_def split: option.splits)

lemma retrieve_queried:
  "\<not> no_query_content req \<Longrightarrow>
     fst (retrieve flt req idx) = [queryText (rq_content (last (req_messages req)))]"
  by (auto simp: no_query_content_def retrieve_def lastMessage_def content_truthy_iff Let_def
      split: option.splits sum.splits if_splits)

lemma retrieve_failed:
  assumes "lastMessage req = Some m" and "content_truthy (rq_content m)"
    and "invoke idx flt 3 (queryText (rq_content m)) = Inl e"
  shows "retrieve flt req idx = ([queryText (rq_content m)], [])"
  using assms by (simp add: retrieve_def Let_def)

lemma openai_turn_sel:
  "queries (openai_turn req idx) = fst (retrieve (openai_filter req) req idx)"
  "retrievedDocs (openai_turn req idx) = snd (retrieve (openai_filter req) req idx)"
  "gen_messages (openai_turn req idx) = req_messages req"
  "system (openai_turn req idx)
     = system_prompt (retrievedDocs (openai_turn req idx))
         (openai_contextText (retrievedDocs (openai_turn req idx)))"
  by (simp_all add: openai_turn_def split: prod.splits)

lemma groq_turn_sel:
  "queries (groq_turn req idx) = fst (retrieve [] req idx)"
  "retrievedDocs (groq_turn req idx) = snd (retrieve [] req idx)"
  "gen_messages (groq_turn req idx) = req_messages req"
  "system (groq_turn req idx)
     = system_prompt (retrievedDocs (groq_turn req idx))
         (groq_contextText (retrievedDocs (groq_turn req idx)))"
  by (simp_all add: groq_turn_def split: prod.splits)

lemma retrieve_sample:
  "retrieve (openai_filter sample_request) sample_request (Ranked [bob_doc, widget_doc])
     = ([''What is X?''], [widget_doc])"
  "retrieve [] sample_request (Ranked [bob_doc, widget_doc])
     = ([''What is X?''], [bob_doc, widget_doc])"
  by (simp_all add: retrieve_def lastMessage_def sample_request_def invoke_def matches_def
      openai_filter_def widget_doc_def bob_doc_def quote_def Let_def)

subsection \<open>The system prompt\<close>

lemma system_prompt_None: "system_prompt docs body = None \<longleftrightarrow> docs = []"
  by (simp add: system_prompt_def)

lemma sublist_trans: "sublist xs ys \<Longrightarrow> sublist ys zs \<Longrightarrow> sublist xs zs"
  by (rule sublist_order.order.trans)

lemma sublist_join: "x \<in> set xs \<Longrightarrow> sublist x (join sep xs)"
proof (induction sep xs rule: join.induct)
  case (1 sep)
  then show ?case by simp
next
  case (2 sep y)
  then show ?case by simp
next
  case (3 sep y z zs)
  show ?case
  proof (cases "x = y")
    case True
    then show ?thesis by simp
  next
    case False
    with 3 have "sublist x (join sep (z # zs))" by simp
    moreover have "sublist (join sep (z # zs)) (y @ sep @ join sep (z # zs))"
      using sublist_appendI [of "join sep (z # zs)" "y @ sep" "[]"] by simp
    ultimately show ?thesis by (simp add: sublist_trans)
  qed
qed

lemma openai_block_text: "sublist (pageContent d) (openai_block (i, d))"
  unfolding sublist_def openai_block_def
  by (rule exI [of _ "''Document '' @ string_of_nat (i + 1) @ '':'' @ nl"],
      rule exI [of _ "nl @ ''Source: '' @ or_default (map_of (metadata d) ''source'') ''Unknown'' @ nl"])
     simp

lemma openai_block_source:
  "map_of (metadata d) ''source'' = Some s \<Longrightarrow> sublist s (openai_block (i, d))"
proof (cases "s = []")
  case True
  then show ?thesis by simp
next
  case False
  assume "map_of (metadata d) ''source'' = Some s"
  with False show ?thesis
    unfolding sublist_def openai_block_def
    by (intro exI [of _ "''Document '' @ string_of_nat (i + 1) @ '':'' @ nl @ pageContent d @ nl @ ''Source: ''"]
        exI [of _ nl]) simp
qed

lemma groq_block_text: "sublist (pageContent d) (groq_block d)"
  unfolding sublist_def groq_block_def
  by (rule exI [of _ "''Document '' @ template (map_of (metadata d) ''url'') @ '':'' @ nl"],
      rule exI [of _ "nl @ ''Source: '' @ or_default (map_of (metadata d) ''url'') ''Unknown'' @ nl"])
     simp

lemma groq_block_url:
  "map_of (metadata d) ''url'' = Some s \<Longrightarrow> sublist s (groq_block d)"
  unfolding sublist_def groq_block_def
  by (intro exI [of _ "''Document ''"]
      exI [of _ "'':'' @ nl @ pageContent d @ nl @ ''Source: '' @ or_default (Some s) ''Unknown'' @ nl"])
     simp

lemma sublist_prompt:
  assumes "docs \<noteq> []" and "sublist x body"
  shows "\<exists>block. system_prompt docs body = Some block \<and> sublist x block"
proof -
  have "sublist body (preamble @ nl @ nl @ body)"
    using sublist_appendI [of body "preamble @ nl @ nl" "[]"] by simp
  with assms show ?thesis by (auto simp: system_prompt_def intro: sublist_trans)
qed

lemma openai_context:
  assumes "d \<in> set docs"
  shows "\<exists>i. sublist (openai_block (i, d)) (openai_contextText docs)"
proof -
  from assms have "d \<in> snd ` set (enumerate 0 docs)" by (simp flip: set_map)
  then obtain i where "(i, d) \<in> set (enumerate 0 docs)" by force
  then have "openai_block (i, d) \<in> set (map openai_block (enumerate 0 docs))" by force
  from sublist_join [OF this, of nl] assms show ?thesis
    by (auto simp: openai_contextText_def)
qed

lemma groq_context:
  assumes "d \<in> set docs"
  shows "sublist (groq_block d) (groq_contextText docs)"
proof -
  from assms have "groq_block d \<in> set (map groq_block docs)" by simp
  from sublist_join [OF this, of nl] assms show ?thesis
    by (auto simp: groq_contextText_def)
qed

lemma openai_turn_sample:
  "openai_turn sample_request (Ranked [bob_doc, widget_doc]) =
     \<lparr>queries = [''What is X?''], retrievedDocs = [widget_doc],
      gen_messages = [\<lparr>rq_role = User, rq_content = Text ''What is X?''\<rparr>],
      system = Some (preamble @ nl @ nl @ ''Document 1:'' @ nl @ ''X is a widget'' @ nl
                       @ ''Source: docs://x'' @ nl)\<rparr>"
  by (simp add: openai_turn_def retrieve_sample system_prompt_def openai_contextText_def
      openai_block_def digit_def)
     (simp add: sample_request_def widget_doc_def)

subsection \<open>Claims about the chat routes\<close>

text \<open>
  C1 fails in the groq route. The request is made for the user \<open>alice\<close> and the index holds
  a passage of the scope \<open>bob\<close>: the groq route, whose filter is the empty string, retrieves
  it, while the openai route, which filters on the \<open>userId\<close> of the request, retrieves the
  passage of \<open>alice\<close> only.
\<close>

theorem groq_turn_unscoped:
  "scope bob_doc = Some ''bob''
   \<and> req_userId sample_request = Some ''alice''
   \<and> retrievedDocs (groq_turn sample_request (Ranked [bob_doc, widget_doc])) = [bob_doc, widget_doc]
   \<and> retrievedDocs (openai_turn sample_request (Ranked [bob_doc, widget_doc])) = [widget_doc]"
  by (simp add: groq_turn_sel openai_turn_sel retrieve_sample)
     (simp add: scope_def bob_doc_def sample_request_def)

text \<open>
  C2. When the last message has content and \<open>retriever.invoke\<close> throws, both routes go on
  to \<open>streamText\<close> with the messages of the request, no retrieved document and no system
  prompt; whenever the model answers such a call with fragments, the turn ends with the
  assistant message made of them.
\<close>

theorem retrieval_failure_degrades:
  assumes "lastMessage req = Some m" and "content_truthy (rq_content m)"
    and "invoke idx (openai_filter req) 3 (queryText (rq_content m)) = Inl e"
    and "invoke idx [] 3 (queryText (rq_content m)) = Inl e'"
  shows "openai_turn req idx =
           \<lparr>queries = [queryText (rq_content m)], retrievedDocs = [],
            gen_messages = req_messages req, system = None\<rparr>
         \<and> groq_turn req idx =
           \<lparr>queries = [queryText (rq_content m)], retrievedDocs = [],
            gen_messages = req_messages req, system = None\<rparr>
         \<and> (\<forall>fragments. model (req_messages req) None = Inr fragments \<longrightarrow>
               POST_openai model req idx
                 = Inr \<lparr>rq_role = Assistant, rq_content = Text (concat fragments)\<rparr>
               \<and> POST_groq model req idx
                 = Inr \<lparr>rq_role = Assistant, rq_content = Text (concat fragments)\<rparr>)"
proof -
  have o: "openai_turn req idx =
           \<lparr>queries = [queryText (rq_content m)], retrievedDocs = [],
            gen_messages = req_messages req, system = None\<rparr>"
    using retrieve_failed [OF assms(1,2,3)] by (simp add: openai_turn_def system_prompt_def)
  have g: "groq_turn req idx =
           \<lparr>queries = [queryText (rq_content m)], retrievedDocs = [],
            gen_messages = req_messages req, system = None\<rparr>"
    using retrieve_failed [OF assms(1,2,4)] by (simp add: groq_turn_def system_prompt_def)
  show ?thesis
    by (simp add: o g POST_openai_def POST_groq_def streamText_def)
qed

theorem retrieval_failure_degrades_witness:
  "openai_turn sample_request Unavailable =
     \<lparr>queries = [''What is X?''], retrievedDocs = [],
      gen_messages = req_messages sample_request, system = None\<rparr>
   \<and> POST_groq (\<lambda>ms sys. Inr [''X is '', ''a widget.'']) sample_request Unavailable
     = Inr \<lparr>rq_role = Assistant, rq_content = Text ''X is a widget.''\<rparr>"
proof -
  have 1: "lastMessage sample_request = Some \<lparr>rq_role = User, rq_content = Text ''What is X?''\<rparr>"
    by (simp add: lastMessage_def sample_request_def)
  have 2: "content_truthy (rq_content \<lparr>rq_role = User, rq_content = Text ''What is X?''\<rparr>)"
    by simp
  have 3: "invoke Unavailable flt 3 (queryText (rq_content \<lparr>rq_role = User, rq_content = Text ''What is X?''\<rparr>))
             = Inl RetrieverError" for flt
    by (simp add: invoke_def)
  from retrieval_failure_degrades [OF 1 2 3 3, of "\<lambda>ms sys. Inr [''X is '', ''a widget.'']"]
  show ?thesis by simp
qed

text \<open>
  C5, as amended. When the request has no last message, or the content of the last message
  is absent or the empty string, neither route calls the retriever and no document is
  retrieved. In every other case the retriever is called once, with the flattened content
  of the last message.
\<close>

theorem retrieval_skipped_without_content:
  "(no_query_content req \<longrightarrow>
      queries (openai_turn req idx) = [] \<and> retrievedDocs (openai_turn req idx) = []
      \<and> queries (groq_turn req idx) = [] \<and> retrievedDocs (groq_turn req idx) = [])
   \<and> (\<not> no_query_content req \<longrightarrow>
      queries (openai_turn req idx) = [queryText (rq_content (last (req_messages req)))]
      \<and> queries (groq_turn req idx) = [queryText (rq_content (last (req_messages req)))])"
proof (intro conjI impI)
  assume a: "no_query_content req"
  show "queries (openai_turn req idx) = []" "retrievedDocs (openai_turn req idx) = []"
    by (simp_all add: openai_turn_sel retrieve_skipped [OF a])
  show "queries (groq_turn req idx) = []" "retrievedDocs (groq_turn req idx) = []"
    by (simp_all add: groq_turn_sel retrieve_skipped [OF a])
next
  assume a: "\<not> no_query_content req"
  show "queries (openai_turn req idx) = [queryText (rq_content (last (req_messages req)))]"
    using retrieve_queried [OF a, of "openai_filter req" idx]
    by (simp add: openai_turn_sel)
  show "queries (groq_turn req idx) = [queryText (rq_content (last (req_messages req)))]"
    using retrieve_queried [OF a, of "[]" idx]
    by (simp add: groq_turn_sel)
qed

theorem retrieval_skipped_without_content_witness:
  "queries (openai_turn \<lparr>req_messages = [\<lparr>rq_role = User, rq_content = Text []\<rparr>],
                         req_userId = Some ''alice''\<rparr> (Ranked [widget_doc])) = []
   \<and> retrievedDocs (groq_turn \<lparr>req_messages = [], req_userId = None\<rparr> (Ranked [widget_doc])) = []
   \<and> queries (openai_turn sample_request (Ranked [widget_doc])) = [''What is X?'']"
proof -
  have 1: "no_query_content \<lparr>req_messages = [\<lparr>rq_role = User, rq_content = Text []\<rparr>],
                              req_userId = Some ''alice''\<rparr>"
    by (simp add: no_query_content_def lastMessage_def)
  have 2: "no_query_content \<lparr>req_messages = [], req_userId = None\<rparr>"
    by (simp add: no_query_content_def lastMessage_def)
  have 3: "\<not> no_query_content sample_request"
    by (simp add: no_query_content_def lastMessage_def sample_request_def)
  have 4: "queryText (rq_content (last (req_messages sample_request))) = ''What is X?''"
    by (simp add: sample_request_def)
  from retrieval_skipped_without_content
         [of "\<lparr>req_messages = [\<lparr>rq_role = User, rq_content = Text []\<rparr>], req_userId = Some ''alice''\<rparr>"
             "Ranked [widget_doc]"]
       retrieval_skipped_without_content [of "\<lparr>req_messages = [], req_userId = None\<rparr>" "Ranked [widget_doc]"]
       retrieval_skipped_without_content [of sample_request "Ranked [widget_doc]"]
       1 2 3 4
  show ?thesis by simp
qed

text \<open>
  C5 as stated fails for a query of white space, with which both routes call the
  retriever (and use what it returns), and for an array content that flattens to the empty
  text, which is truthy and is queried as well.
\<close>

theorem whitespace_query_counterexample:
  "whitespace_only (queryText (Text ''   ''))
   \<and> queries (openai_turn \<lparr>req_messages = [\<lparr>rq_role = User, rq_content = Text ''   ''\<rparr>],
                           req_userId = Some ''alice''\<rparr> (Ranked [widget_doc])) = [''   '']
   \<and> retrievedDocs (openai_turn \<lparr>req_messages = [\<lparr>rq_role = User, rq_content = Text ''   ''\<rparr>],
                           req_userId = Some ''alice''\<rparr> (Ranked [widget_doc])) = [widget_doc]
   \<and> queries (groq_turn \<lparr>req_messages = [\<lparr>rq_role = User, rq_content = Text ''   ''\<rparr>],
                           req_userId = Some ''alice''\<rparr> (Ranked [widget_doc])) = [''   '']
   \<and> queryText (Parts []) = []
   \<and> queries (openai_turn \<lparr>req_messages = [\<lparr>rq_role = User, rq_content = Parts []\<rparr>],
                           req_userId = Some ''alice''\<rparr> (Ranked [widget_doc])) = [[]]"
  by (simp add: whitespace_only_def is_space_def openai_turn_def groq_turn_def retrieve_def
      lastMessage_def invoke_def matches_def openai_filter_def widget_doc_def quote_def Let_def)


text \<open>
  In both routes the system prompt is absent exactly when no document was retrieved.
  Otherwise it contains the text of every retrieved document, and the property of its
  metadata that the route reads where the document has it: \<open>source\<close> in the openai route,
  \<open>url\<close> in the groq route.
\<close>

lemma system_prompt_contains:
  "(system (openai_turn req idx) = None \<longleftrightarrow> retrievedDocs (openai_turn req idx) = [])
   \<and> (system (groq_turn req idx) = None \<longleftrightarrow> retrievedDocs (groq_turn req idx) = [])
   \<and> (\<forall>d\<in>set (retrievedDocs (openai_turn req idx)).
         \<exists>block. system (openai_turn req idx) = Some block
           \<and> sublist (pageContent d) block
           \<and> (\<forall>s. map_of (metadata d) ''source'' = Some s \<longrightarrow> sublist s block))
   \<and> (\<forall>d\<in>set (retrievedDocs (groq_turn req idx)).
         \<exists>block. system (groq_turn req idx) = Some block
           \<and> sublist (pageContent d) block
           \<and> (\<forall>s. map_of (metadata d) ''url'' = Some s \<longrightarrow> sublist s block))"
proof (intro conjI ballI)
  show "system (openai_turn req idx) = None \<longleftrightarrow> retrievedDocs (openai_turn req idx) = []"
    by (simp add: openai_turn_sel(4) system_prompt_None)
  show "system (groq_turn req idx) = None \<longleftrightarrow> retrievedDocs (groq_turn req idx) = []"
    by (simp add: groq_turn_sel(4) system_prompt_None)
next
  fix d
  let ?docs = "retrievedDocs (openai_turn req idx)"
  assume d: "d \<in> set ?docs"
  then have ne: "?docs \<noteq> []" by auto
  from openai_context [OF d] obtain i
    where i: "sublist (openai_block (i, d)) (openai_contextText ?docs)" by blast
  from sublist_prompt [OF ne i] obtain block
    where b: "system_prompt ?docs (openai_contextText ?docs) = Some block"
      "sublist (openai_block (i, d)) block" by blast
  have "sublist (pageContent d) block"
    using openai_block_text b(2) by (rule sublist_trans)
  moreover have "\<forall>s. map_of (metadata d) ''source'' = Some s \<longrightarrow> sublist s block"
    using openai_block_source b(2) by (blast intro: sublist_trans)
  ultimately show "\<exists>block. system (openai_turn req idx) = Some block
           \<and> sublist (pageContent d) block
           \<and> (\<forall>s. map_of (metadata d) ''source'' = Some s \<longrightarrow> sublist s block)"
    using b(1) by (simp add: openai_turn_sel(4))
next
  fix d
  let ?docs = "retrievedDocs (groq_turn req idx)"
  assume d: "d \<in> set ?docs"
  then have ne: "?docs \<noteq> []" by auto
  from sublist_prompt [OF ne groq_context [OF d]] obtain block
    where b: "system_prompt ?docs (groq_contextText ?docs) = Some block"
      "sublist (groq_block d) block" by blast
  have "sublist (pageContent d) block"
    using groq_block_text b(2) by (rule sublist_trans)
  moreover have "\<forall>s. map_of (metadata d) ''url'' = Some s \<longrightarrow> sublist s block"
    using groq_block_url b(2) by (blast intro: sublist_trans)
  ultimately show "\<exists>block. system (groq_turn req idx) = Some block
           \<and> sublist (pageContent d) block
           \<and> (\<forall>s. map_of (metadata d) ''url'' = Some s \<longrightarrow> sublist s block)"
    using b(1) by (simp add: groq_turn_sel(4))
qed

text \<open>
  C6 fails in the groq route. The index answers with the passage of the scenario, whose
  locator \<open>docs://x\<close> is its \<open>source\<close> property. The openai route renders the locator into
  the system prompt. The groq route reads the \<open>url\<close> property, which the passage does not
  have: its system prompt labels the passage \<open>undefined\<close>, gives \<open>Unknown\<close> for the source and
  does not contain the locator.
\<close>

theorem groq_turn_omits_source:
  "system (groq_turn sample_request (Ranked [source_doc]))
     = Some (preamble @ nl @ nl @ ''Document undefined:'' @ nl @ ''X is a widget'' @ nl
               @ ''Source: Unknown'' @ nl)
   \<and> \<not> sublist ''docs://x''
         (preamble @ nl @ nl @ ''Document undefined:'' @ nl @ ''X is a widget'' @ nl
            @ ''Source: Unknown'' @ nl)
   \<and> system (openai_turn sample_request (Ranked [source_doc]))
     = Some (preamble @ nl @ nl @ ''Document 1:'' @ nl @ ''X is a widget'' @ nl
               @ ''Source: docs://x'' @ nl)"
proof -
  have r: "retrieve flt sample_request (Ranked [source_doc]) = ([''What is X?''], [source_doc])"
    if "flt = [] \<or> flt = openai_filter sample_request" for flt
    using that
    by (auto simp: retrieve_def lastMessage_def sample_request_def invoke_def matches_def
        openai_filter_def source_doc_def quote_def Let_def)
  have g: "system (groq_turn sample_request (Ranked [source_doc]))
     = Some (preamble @ nl @ nl @ ''Document undefined:'' @ nl @ ''X is a widget'' @ nl
               @ ''Source: Unknown'' @ nl)"
    by (simp add: groq_turn_def r system_prompt_def groq_contextText_def groq_block_def)
       (simp add: source_doc_def)
  have o: "system (openai_turn sample_request (Ranked [source_doc]))
     = Some (preamble @ nl @ nl @ ''Document 1:'' @ nl @ ''X is a widget'' @ nl
               @ ''Source: docs://x'' @ nl)"
    by (simp add: openai_turn_def r system_prompt_def openai_contextText_def openai_block_def
        digit_def)
       (simp add: source_doc_def)
  have n: "\<not> sublist ''docs://x''
         (preamble @ nl @ nl @ ''Document undefined:'' @ nl @ ''X is a widget'' @ nl
            @ ''Source: Unknown'' @ nl)"
    by (simp add: preamble_def nl_def sublist_Cons_right)
  from g n o show ?thesis by blast
qed

section \<open>Further properties\<close>

text \<open>
  The save-on-change effect of the chat component: in a browser, for a truthy
  \<open>activeThreadId\<close> and messages that are not empty, it leaves the messages of the component,
  as JSON writes them, as the stored sequence of the conversation.
\<close>

theorem saveMessages_persists:
  assumes "cc_activeThreadId s = Some cid" and "cid \<noteq> []" and "cc_messages s \<noteq> []"
    and "cc_window s = Some ls"
  shows "loadChat cid (cc_window (saveMessages s)) = Inr (map toJSON (cc_messages s))"
  using assms
  by (simp add: saveMessages_def debouncedSaveMessages_def loadChat_def saveChat_def
      getItem_setItem JSON_stringify_def)

theorem saveMessages_persists_witness:
  "loadChat ''C''
     (cc_window (saveMessages
        \<lparr>cc_window = Some sample_storage, cc_activeThreadId = Some ''C'',
         cc_messages = [question]\<rparr>))
   = Inr [\<lparr>msg_id = ''msg_1'', role = User, content = ''What is X?'',
            msg_createdAt = Some (IsoString 1600000000000)\<rparr>]"
  using saveMessages_persists
    [of "\<lparr>cc_window = Some sample_storage, cc_activeThreadId = Some ''C'',
         cc_messages = [question]\<rparr>"
        "''C''" sample_storage]
  by (simp add: toJSON_def question_def)

text \<open>
  The \<open>onFinish\<close> callback of the chat component: in a browser, for a truthy
  \<open>activeThreadId\<close>, it leaves as the stored sequence the messages of its closure followed
  by the finished message, whatever the messages of the component are by then.
\<close>

theorem onFinish_persists:
  assumes "cid \<noteq> []"
  shows "loadChat cid (onFinish (Some cid) seen msg (Some ls)) = Inr (map toJSON (seen @ [msg]))"
  using assms
  by (simp add: onFinish_def loadChat_def saveChat_def getItem_setItem JSON_stringify_def)

theorem onFinish_persists_witness:
  "loadChat ''C'' (onFinish (Some ''C'') [] question (Some sample_storage))
   = Inr [\<lparr>msg_id = ''msg_1'', role = User, content = ''What is X?'',
            msg_createdAt = Some (IsoString 1600000000000)\<rparr>]"
  using onFinish_persists [of "''C''" "[]" question sample_storage]
  by (simp add: toJSON_def question_def)

text \<open>
  The openai route, for a \<open>userId\<close> parameter without a quote (its filter is then the
  equality the model of the index reads): every retrieved document was indexed under the
  scope of the request.
\<close>

theorem openai_turn_scoped:
  assumes "d \<in> set (retrievedDocs (openai_turn req idx))"
    and "CHR 0x27 \<notin> set (template_param (req_userId req))"
  shows "scope d = Some (template_param (req_userId req))"
proof -
  from assms(1) have "matches (openai_filter req) d"
    by (auto simp: openai_turn_sel retrieve_def invoke_def Let_def
        split: option.splits if_splits vector_index.splits dest: in_set_takeD)
  then show ?thesis
    by (auto simp: matches_def openai_filter_def scope_def quote_def split: option.splits)
qed

theorem openai_turn_scoped_witness:
  "scope widget_doc = Some ''alice''"
proof -
  have 1: "widget_doc \<in> set (retrievedDocs (openai_turn sample_request (Ranked [bob_doc, widget_doc])))"
    by (simp add: openai_turn_sel retrieve_sample)
  have 2: "CHR 0x27 \<notin> set (template_param (req_userId sample_request))"
    by (simp add: sample_request_def)
  from openai_turn_scoped [OF 1 2] show ?thesis by (simp add: sample_request_def)
qed

end
